theory Spec2Isabelle
  imports Main
begin

section \<open>The upload queue store of \<open>useUploadStore.ts\<close>\<close>

subsection \<open>Data model\<close>

text \<open>
  The browser's \<open>File\<close> object, as far as the store reads it: its name, its size in
  bytes and its declared content type.
\<close>

record File =
  name_f :: string
  size_f :: nat
  type_f :: string

datatype status = Pending | Uploading | Success | Error

text \<open>
  \<open>interface UploadFile\<close>. An optional field of the source (\<open>description?\<close>,
  \<open>error?\<close>, \<open>result?\<close>) is an \<open>option\<close>, \<open>None\<close> being \<open>undefined\<close>. The field
  \<open>file\<close> is an option as well: \<open>partialize\<close> writes \<open>undefined\<close> into it. The server's
  answer (\<open>result?: any\<close>) is kept as the text that was received.
\<close>

record UploadFile =
  id_u :: string
  file_u :: "File option"
  title :: string
  description :: "string option"
  status :: status
  progress :: nat
  error :: "string option"
  result :: "string option"

text \<open>The data fields of \<open>interface UploadState\<close>.\<close>

record UploadState =
  files :: "UploadFile list"
  isUploading :: bool
  currentUploadingId :: "string option"

text \<open>
  What \<open>PDFUploadService.uploadPDF\<close> hands to \<open>XMLHttpRequest\<close>: the form fields and the
  bearer token of the \<open>Authorization\<close> header.
\<close>

record request =
  req_title :: string
  req_description :: "string option"
  req_file :: File
  req_token :: string

text \<open>How the promise returned by \<open>uploadPDF\<close> settles.\<close>

datatype outcome = Resolved string | Rejected string

text \<open>
  The store together with the part of the browser it acts on:
  \<^item> \<open>token\<close>: the entry \<open>access_token\<close> of \<open>localStorage\<close>;
  \<^item> \<open>requests\<close>: the requests sent so far, oldest first;
  \<^item> \<open>awaiting\<close>: the invocations of \<open>processQueue\<close> suspended at their \<open>await\<close>, each
    with the id of its \<open>fileToUpload\<close> and, when the promise is settled already, its outcome;
  \<^item> \<open>timers\<close>: the delays (in ms) of the \<open>setTimeout\<close> calls that have not fired yet; each
    of them calls \<open>processQueue\<close>.
\<close>

record world =
  store :: UploadState
  token :: "string option"
  requests :: "request list"
  awaiting :: "(string \<times> outcome option) list"
  timers :: "nat list"

subsection \<open>Strings and numbers of JavaScript\<close>

text \<open>A string used as a condition is true unless it is \<open>undefined\<close>, \<open>null\<close> or empty.\<close>

fun truthy :: "string option \<Rightarrow> bool" where
  "truthy None = False"
| "truthy (Some s) = (s \<noteq> [])"

definition digit :: "nat \<Rightarrow> char" where
  "digit d = ''0123456789'' ! d"

text \<open>The decimal rendering of a non-negative integer in a template literal.\<close>

function show_nat :: "nat \<Rightarrow> string" where
  "show_nat n = (if n < 10 then [digit n] else show_nat (n div 10) @ [digit (n mod 10)])"
  by pat_completeness auto
termination
  by (relation "measure (\<lambda>n. n)") auto

declare show_nat.simps [simp del]

text \<open>
  \<open>(size / (1024*1024)).toFixed(2)\<close>. A file size is an integer below \<open>2^53\<close>, so the
  quotient by \<open>2^20\<close> is exact in a double, and \<open>toFixed(2)\<close> prints the integer \<open>n\<close> with
  \<open>n / 100\<close> nearest to it (the larger one on a tie) with two decimals.
\<close>

definition toFixed2_MB :: "nat \<Rightarrow> string" where
  "toFixed2_MB sz =
     (let n = (200 * sz + 1024 * 1024) div (2 * (1024 * 1024))
      in show_nat (n div 100) @ ''.'' @ [digit (n mod 100 div 10), digit (n mod 10)])"

definition MAX_FILE_SIZE :: nat where
  "MAX_FILE_SIZE = 10 * 1024 * 1024"

definition size_message :: "File \<Rightarrow> string" where
  "size_message fl =
     ''File size ('' @ toFixed2_MB (size_f fl) @ '' MB) exceeds the maximum allowed size of 10 MB''"

definition type_message :: "File \<Rightarrow> string" where
  "type_message fl =
     ''File type '' @ [CHR 0x22] @ (if type_f fl = [] then ''unknown'' else type_f fl) @ [CHR 0x22]
       @ '' is not supported. Only PDF files are allowed''"

subsection \<open>Actions that only set the state\<close>

definition removeFile :: "string \<Rightarrow> UploadState \<Rightarrow> UploadState" where
  "removeFile i state = state\<lparr>files := filter (\<lambda>f. id_u f \<noteq> i) (files state)\<rparr>"

definition clearCompleted :: "UploadState \<Rightarrow> UploadState" where
  "clearCompleted state =
     state\<lparr>files := filter (\<lambda>f. status f = Pending \<or> status f = Uploading) (files state)\<rparr>"

definition clearAll :: "UploadState \<Rightarrow> UploadState" where
  "clearAll state = state\<lparr>files := [], isUploading := False, currentUploadingId := None\<rparr>"

definition pauseUpload :: "UploadState \<Rightarrow> UploadState" where
  "pauseUpload state = state\<lparr>isUploading := False, currentUploadingId := None\<rparr>"

definition updateFileStatus ::
  "string \<Rightarrow> status \<Rightarrow> nat \<Rightarrow> string option \<Rightarrow> string option \<Rightarrow> UploadState \<Rightarrow> UploadState" where
  "updateFileStatus i st pr err res state =
     state\<lparr>files := map (\<lambda>f. if id_u f = i
                               then f\<lparr>status := st, progress := pr, error := err, result := res\<rparr>
                               else f) (files state)\<rparr>"

subsection \<open>The transfer client\<close>

text \<open>
  \<open>PDFUploadService.uploadPDF\<close> up to the point where it returns its promise: without a
  token the promise is rejected at once and nothing is sent; otherwise the request goes
  out and the promise stays open until the browser reports the end of the transfer.
\<close>

definition uploadPDF :: "File \<Rightarrow> string \<Rightarrow> string option \<Rightarrow> world \<Rightarrow> outcome option \<times> world" where
  "uploadPDF fl ttl descr w =
     (case token w of
        None \<Rightarrow> (Some (Rejected ''No authentication token found''), w)
      | Some tok \<Rightarrow>
          if tok = [] then (Some (Rejected ''No authentication token found''), w)
          else (None, w\<lparr>requests := requests w @
                  [\<lparr>req_title = ttl,
                    req_description = (if truthy descr then descr else None),
                    req_file = fl,
                    req_token = tok\<rparr>]\<rparr>))"

subsection \<open>The drive loop\<close>

definition pendingFiles :: "UploadState \<Rightarrow> UploadFile list" where
  "pendingFiles state = filter (\<lambda>f. status f = Pending) (files state)"

definition schedule :: "nat \<Rightarrow> world \<Rightarrow> world" where
  "schedule delay w = (if isUploading (store w) then w\<lparr>timers := timers w @ [delay]\<rparr> else w)"

text \<open>
  \<open>processQueue\<close> from its entry to its first \<open>await\<close> (or to its \<open>return\<close>). An item
  without a \<open>file\<close> makes the read of \<open>file.size\<close> throw: the invocation ends there and
  has changed nothing.
\<close>

definition processQueue :: "world \<Rightarrow> world" where
  "processQueue w =
     (let state = store w in
      if \<not> isUploading state then w
      else case pendingFiles state of
        [] \<Rightarrow> w\<lparr>store := state\<lparr>isUploading := False, currentUploadingId := None\<rparr>\<rparr>
      | fileToUpload # _ \<Rightarrow>
          (case file_u fileToUpload of
             None \<Rightarrow> w
           | Some fl \<Rightarrow>
               if size_f fl > MAX_FILE_SIZE then
                 schedule 100
                   (w\<lparr>store := updateFileStatus (id_u fileToUpload) Error 0
                                  (Some (size_message fl)) None state\<rparr>)
               else if type_f fl \<noteq> ''application/pdf'' then
                 schedule 100
                   (w\<lparr>store := updateFileStatus (id_u fileToUpload) Error 0
                                  (Some (type_message fl)) None state\<rparr>)
               else
                 (let w1 = w\<lparr>store := state\<lparr>currentUploadingId := Some (id_u fileToUpload)\<rparr>\<rparr>;
                      w2 = w1\<lparr>store := updateFileStatus (id_u fileToUpload) Uploading 0
                                          None None (store w1)\<rparr>;
                      (promise, w3) = uploadPDF fl (title fileToUpload) (description fileToUpload) w2
                  in w3\<lparr>awaiting := awaiting w3 @ [(id_u fileToUpload, promise)]\<rparr>)))"

text \<open>The \<open>onProgress\<close> callback of an open transfer.\<close>

definition onProgress :: "string \<Rightarrow> nat \<Rightarrow> world \<Rightarrow> world" where
  "onProgress i pr w = w\<lparr>store := updateFileStatus i Uploading pr None None (store w)\<rparr>"

text \<open>\<open>processQueue\<close> after its \<open>await\<close>: the rest of the \<open>try\<close> block, or the \<open>catch\<close> block.\<close>

fun processQueue_resume :: "string \<Rightarrow> outcome \<Rightarrow> world \<Rightarrow> world" where
  "processQueue_resume i (Resolved res) w =
     schedule 500 (w\<lparr>store := updateFileStatus i Success 100 None (Some res) (store w)\<rparr>)"
| "processQueue_resume i (Rejected errorMessage) w =
     schedule 1000 (w\<lparr>store := updateFileStatus i Error 0 (Some errorMessage) None (store w)\<rparr>)"

subsection \<open>Actions that may start the drive loop\<close>

definition startUpload :: "world \<Rightarrow> world" where
  "startUpload w =
     (if \<not> isUploading (store w)
      then processQueue (w\<lparr>store := (store w)\<lparr>isUploading := True\<rparr>\<rparr>)
      else w)"

definition newFiles ::
  "File list \<Rightarrow> string \<Rightarrow> string option \<Rightarrow> string option \<Rightarrow> (nat \<Rightarrow> nat) \<Rightarrow> UploadFile list" where
  "newFiles fs baseTitle descr initialError now =
     map (\<lambda>(index, fl).
            \<lparr>id_u = show_nat (now index) @ ''-'' @ show_nat index,
             file_u = Some fl,
             title = (if length fs = 1 then baseTitle
                      else baseTitle @ '' - Part '' @ show_nat (index + 1)),
             description = descr,
             status = (if truthy initialError then Error else Pending),
             progress = 0,
             error = initialError,
             result = None\<rparr>)
         (enumerate 0 fs)"

text \<open>
  \<open>addFiles\<close>. The source reads \<open>Date.now()\<close> once for each file of the call;
  \<open>now index\<close> is the reading taken for the file at \<open>index\<close>.
\<close>

definition addFiles ::
  "File list \<Rightarrow> string \<Rightarrow> string option \<Rightarrow> string option \<Rightarrow> (nat \<Rightarrow> nat) \<Rightarrow> world
     \<Rightarrow> world" where
  "addFiles fs baseTitle descr initialError now w =
     (let w1 = w\<lparr>store := (store w)\<lparr>files := files (store w)
                                @ newFiles fs baseTitle descr initialError now\<rparr>\<rparr>
      in if \<not> truthy initialError \<and> \<not> isUploading (store w1) then startUpload w1 else w1)"

definition retryFile :: "string \<Rightarrow> world \<Rightarrow> world" where
  "retryFile i w =
     (let w1 = w\<lparr>store := (store w)\<lparr>files :=
                   map (\<lambda>f. if id_u f = i
                            then f\<lparr>status := Pending, progress := 0, error := None\<rparr>
                            else f) (files (store w))\<rparr>\<rparr>
      in if \<not> isUploading (store w1) then startUpload w1 else w1)"

subsection \<open>Persistence\<close>

text \<open>
  \<open>partialize\<close> builds the snapshot that the \<open>persist\<close> middleware writes as JSON. A
  field that is \<open>undefined\<close> is left out of the JSON text and is \<open>undefined\<close> again when
  the text is read back, so the snapshot that is restored is the one that was built.
\<close>

definition partialize :: "UploadState \<Rightarrow> UploadState" where
  "partialize state =
     \<lparr>files = map (\<lambda>f. f\<lparr>file_u := None\<rparr>) (files state),
      isUploading = False,
      currentUploadingId = None\<rparr>"

text \<open>
  The callback returned by \<open>onRehydrateStorage\<close>; \<open>None\<close> is the \<open>undefined\<close> it gets when
  nothing was stored.
\<close>

fun onRehydrateStorage :: "UploadState option \<Rightarrow> UploadState option" where
  "onRehydrateStorage None = None"
| "onRehydrateStorage (Some state) =
     Some (state\<lparr>files := filter (\<lambda>f. file_u f \<noteq> None) (files state),
                 isUploading := False,
                 currentUploadingId := None\<rparr>)"

subsection \<open>Runs\<close>

text \<open>
  What can happen to the store: a command of the user interface, a timer that fires, a
  progress report or the end of an open transfer, and the continuation of an invocation
  whose promise was settled from the start. Timers and suspended invocations are named
  by their position in the lists of the world.
\<close>

datatype event =
    AddFiles "File list" string "string option" "string option" "nat \<Rightarrow> nat"
  | RemoveFile string
  | ClearCompleted
  | ClearAll
  | StartUpload
  | PauseUpload
  | RetryFile string
  | Tick nat
  | Progress nat nat
  | Settle nat outcome
  | Continue nat

definition del_nth :: "nat \<Rightarrow> 'a list \<Rightarrow> 'a list" where
  "del_nth k xs = take k xs @ drop (Suc k) xs"

fun step :: "world \<Rightarrow> event \<Rightarrow> world" where
  "step w (AddFiles fs baseTitle descr initialError now) =
     addFiles fs baseTitle descr initialError now w"
| "step w (RemoveFile i) = w\<lparr>store := removeFile i (store w)\<rparr>"
| "step w ClearCompleted = w\<lparr>store := clearCompleted (store w)\<rparr>"
| "step w ClearAll = w\<lparr>store := clearAll (store w)\<rparr>"
| "step w StartUpload = startUpload w"
| "step w PauseUpload = w\<lparr>store := pauseUpload (store w)\<rparr>"
| "step w (RetryFile i) = retryFile i w"
| "step w (Tick k) =
     (if k < length (timers w) then processQueue (w\<lparr>timers := del_nth k (timers w)\<rparr>) else w)"
| "step w (Progress k pr) =
     (if k < length (awaiting w) \<and> snd (awaiting w ! k) = None
      then onProgress (fst (awaiting w ! k)) pr w else w)"
| "step w (Settle k out) =
     (if k < length (awaiting w) \<and> snd (awaiting w ! k) = None
      then processQueue_resume (fst (awaiting w ! k)) out (w\<lparr>awaiting := del_nth k (awaiting w)\<rparr>)
      else w)"
| "step w (Continue k) =
     (if k < length (awaiting w) then
        (case snd (awaiting w ! k) of
           None \<Rightarrow> w
         | Some out \<Rightarrow>
             processQueue_resume (fst (awaiting w ! k)) out (w\<lparr>awaiting := del_nth k (awaiting w)\<rparr>))
      else w)"

definition run :: "world \<Rightarrow> event list \<Rightarrow> world" where
  "run w evs = foldl step w evs"

text \<open>The store as \<open>create\<close> builds it, in a browser whose \<open>localStorage\<close> holds \<open>tok\<close>.\<close>

definition initial :: "string option \<Rightarrow> world" where
  "initial tok =
     \<lparr>store = \<lparr>files = [], isUploading = False, currentUploadingId = None\<rparr>,
      token = tok, requests = [], awaiting = [], timers = []\<rparr>"

subsection \<open>Sequences of additions\<close>

text \<open>
  What \<open>addFiles\<close> gives an item for good: its id, payload, title and description. No
  action of the store writes these fields of an existing item.
\<close>

definition core :: "UploadFile \<Rightarrow> string \<times> File option \<times> string \<times> string option" where
  "core f = (id_u f, file_u f, title f, description f)"

type_synonym add_call =
  "File list \<times> string \<times> string option \<times> string option \<times> (nat \<Rightarrow> nat)"

text \<open>A call of \<open>addFiles\<close> with its arguments and its clock readings, and the items it creates.\<close>

definition add_event :: "add_call \<Rightarrow> event" where
  "add_event c = (case c of (fs, baseTitle, descr, initialError, now) \<Rightarrow>
     AddFiles fs baseTitle descr initialError now)"

definition created :: "add_call \<Rightarrow> UploadFile list" where
  "created c = (case c of (fs, baseTitle, descr, initialError, now) \<Rightarrow>
     newFiles fs baseTitle descr initialError now)"

subsection \<open>Example files and runs\<close>

text \<open>
  Two PDF files of 1 MB and one of 15 MB, and a clock that shows the same millisecond
  throughout a call.
\<close>

definition pdfA :: File where
  "pdfA = \<lparr>name_f = ''a.pdf'', size_f = 1048576, type_f = ''application/pdf''\<rparr>"

definition pdfB :: File where
  "pdfB = \<lparr>name_f = ''b.pdf'', size_f = 1048576, type_f = ''application/pdf''\<rparr>"

definition big :: File where
  "big = \<lparr>name_f = ''big.pdf'', size_f = 15728640, type_f = ''application/pdf''\<rparr>"

definition t0 :: "nat \<Rightarrow> nat" where
  "t0 index = 1700000000000"

text \<open>Both files are dropped at once on an idle store: the first one is being sent.\<close>

definition two_added :: world where
  "two_added = run (initial (Some ''secret'')) [AddFiles [pdfA, pdfB] ''Doc'' None None t0]"

text \<open>One file is added and its transfer has succeeded.\<close>

definition one_done :: world where
  "one_done =
     run (initial (Some ''secret'')) [AddFiles [pdfA] ''a'' None None t0, Settle 0 (Resolved ''{}'')]"

text \<open>A store that holds one item of each status.\<close>

definition item_of :: "string \<Rightarrow> status \<Rightarrow> UploadFile" where
  "item_of i st =
     \<lparr>id_u = i, file_u = Some pdfA, title = i, description = None, status = st,
      progress = 0, error = None, result = None\<rparr>"

definition mixed :: world where
  "mixed =
     \<lparr>store = \<lparr>files = [item_of ''1'' Success, item_of ''2'' Error,
                         item_of ''3'' Pending, item_of ''4'' Uploading],
               isUploading = True, currentUploadingId = Some ''4''\<rparr>,
      token = Some ''secret'', requests = [], awaiting = [(''4'', None)], timers = []\<rparr>"

text \<open>An active store whose only item is a pending file of 15 MB.\<close>

definition big_queued :: world where
  "big_queued =
     \<lparr>store = \<lparr>files = [(item_of ''9'' Pending)\<lparr>file_u := Some big\<rparr>],
               isUploading = True, currentUploadingId = None\<rparr>,
      token = Some ''secret'', requests = [], awaiting = [], timers = []\<rparr>"

text \<open>The 15 MB file is added with the error its caller has computed, and then retried.\<close>

definition big_retried :: world where
  "big_retried = run (initial (Some ''secret''))
     [AddFiles [big] ''big'' None (Some (size_message big)) t0, RetryFile ''1700000000000-0'']"

text \<open>The store is paused while the only transfer is open, and the transfer succeeds.\<close>

definition paused_done :: world where
  "paused_done = run (initial (Some ''secret''))
     [AddFiles [pdfA] ''a'' None None t0, PauseUpload, Settle 0 (Resolved ''{}'')]"

text \<open>One file is added while \<open>localStorage\<close> holds no token.\<close>

definition no_token :: world where
  "no_token = run (initial None) [AddFiles [pdfA] ''a'' None None t0]"

text \<open>One file is added and its transfer has failed.\<close>

definition one_failed :: world where
  "one_failed = run (initial (Some ''secret''))
     [AddFiles [pdfA] ''a'' None None t0, Settle 0 (Rejected ''Network error occurred during upload'')]"

text \<open>An active store with one pending file, in a browser without a token.\<close>

definition queued_no_token :: world where
  "queued_no_token =
     \<lparr>store = \<lparr>files = [item_of ''7'' Pending], isUploading = True, currentUploadingId = None\<rparr>,
      token = None, requests = [], awaiting = [], timers = []\<rparr>"

text \<open>The millisecond after \<open>t0\<close>.\<close>

definition t1 :: "nat \<Rightarrow> nat" where
  "t1 index = 1700000000001"

text \<open>
  Two files are added, and the store is paused and started again while the first
  transfer is open.
\<close>

definition restarted :: world where
  "restarted = run (initial (Some ''secret''))
     [AddFiles [pdfA, pdfB] ''Doc'' None None t0, PauseUpload, StartUpload]"

text \<open>
  Two files are added one by one within the same millisecond, as \<open>AddPdfUpload\<close> does
  for the files of one drop.
\<close>

definition same_millisecond :: world where
  "same_millisecond = run (initial (Some ''secret''))
     [AddFiles [pdfA] ''a'' None None t0, AddFiles [pdfB] ''b'' None None t0]"

text \<open>A file is added and removed, and another one is added, all within one millisecond.\<close>

definition readded :: world where
  "readded = run (initial (Some ''secret''))
     [AddFiles [pdfA] ''a'' None None t0, RemoveFile ''1700000000000-0'',
      AddFiles [pdfB] ''b'' None None t0]"


section \<open>Evaluation\<close>

lemma show_nat_t0: "show_nat (t0 index) = ''1700000000000''"
  by (simp add: t0_def show_nat.simps digit_def)

lemma show_nat_t1: "show_nat (t1 index) = ''1700000000001''"
  by (simp add: t1_def show_nat.simps digit_def)

lemma show_nat_small:
  "show_nat 0 = ''0''" "show_nat (Suc 0) = ''1''" "show_nat (Suc (Suc 0)) = ''2''"
  by (simp_all add: show_nat.simps digit_def)

lemma example_files:
  "size_f pdfA = 1048576" "type_f pdfA = ''application/pdf''"
  "size_f pdfB = 1048576" "type_f pdfB = ''application/pdf''"
  "size_f big = 15728640" "type_f big = ''application/pdf''"
  by (simp_all add: pdfA_def pdfB_def big_def)

lemma size_message_big:
  "size_message big = ''File size (15.00 MB) exceeds the maximum allowed size of 10 MB''"
  by (simp add: size_message_def toFixed2_MB_def big_def show_nat.simps digit_def)

lemmas unfold_store =
  run_def initial_def addFiles_def newFiles_def startUpload_def processQueue_def pendingFiles_def
  updateFileStatus_def uploadPDF_def schedule_def retryFile_def removeFile_def clearCompleted_def
  clearAll_def pauseUpload_def onProgress_def del_nth_def enumerate_eq_zip Let_def
  MAX_FILE_SIZE_def example_files show_nat_t0 show_nat_small

lemma two_added_eq:
  "two_added =
     \<lparr>store = \<lparr>files =
        [\<lparr>id_u = ''1700000000000-0'', file_u = Some pdfA, title = ''Doc - Part 1'',
          description = None, status = Uploading, progress = 0, error = None, result = None\<rparr>,
         \<lparr>id_u = ''1700000000000-1'', file_u = Some pdfB, title = ''Doc - Part 2'',
          description = None, status = Pending, progress = 0, error = None, result = None\<rparr>],
        isUploading = True, currentUploadingId = Some ''1700000000000-0''\<rparr>,
      token = Some ''secret'',
      requests = [\<lparr>req_title = ''Doc - Part 1'', req_description = None, req_file = pdfA,
                   req_token = ''secret''\<rparr>],
      awaiting = [(''1700000000000-0'', None)],
      timers = []\<rparr>"
  by (simp add: two_added_def unfold_store)

lemma one_done_eq:
  "one_done =
     \<lparr>store = \<lparr>files =
        [\<lparr>id_u = ''1700000000000-0'', file_u = Some pdfA, title = ''a'',
          description = None, status = Success, progress = 100, error = None,
          result = Some ''{}''\<rparr>],
        isUploading = True, currentUploadingId = Some ''1700000000000-0''\<rparr>,
      token = Some ''secret'',
      requests = [\<lparr>req_title = ''a'', req_description = None, req_file = pdfA,
                   req_token = ''secret''\<rparr>],
      awaiting = [],
      timers = [500]\<rparr>"
  by (simp add: one_done_def unfold_store)

section \<open>Removing items\<close>

text \<open>
  Claim C8. \<open>clearCompleted()\<close> keeps the items that are \<open>pending\<close> or \<open>uploading\<close>, in
  their order, and removes the items that are \<open>success\<close> or \<open>error\<close>; the activity flag
  and the active-item marker stay as they are.
\<close>

theorem clearCompleted_exact:
  "files (store (step w ClearCompleted)) =
     filter (\<lambda>f. status f \<noteq> Success \<and> status f \<noteq> Error) (files (store w))
   \<and> isUploading (store (step w ClearCompleted)) = isUploading (store w)
   \<and> currentUploadingId (store (step w ClearCompleted)) = currentUploadingId (store w)"
proof -
  have "(status f = Pending \<or> status f = Uploading) = (status f \<noteq> Success \<and> status f \<noteq> Error)"
    for f :: UploadFile
    by (cases "status f") simp_all
  then show ?thesis
    by (simp add: clearCompleted_def)
qed

text \<open>On the store with one item of each status, the pending and the uploading item remain.\<close>

theorem clearCompleted_exact_witness:
  "files (store (step mixed ClearCompleted)) = [item_of ''3'' Pending, item_of ''4'' Uploading]"
  using clearCompleted_exact [of mixed]
  by (simp add: mixed_def item_of_def)

section \<open>Persistence\<close>

text \<open>
  Claim C3, as the code has it. Every persisted item has lost its payload, and restoring
  drops the items without a payload: persisting and then restoring yields the empty
  queue, inactive and with no active item, whatever the queue held.
\<close>

theorem persist_restore_empty:
  "onRehydrateStorage (Some (partialize state)) =
     Some \<lparr>files = [], isUploading = False, currentUploadingId = None\<rparr>"
  by (simp add: partialize_def filter_empty_conv)

text \<open>
  The claim as written fails: the snapshot of a queue with two items holds two items
  (without payload), and the restored queue holds none.
\<close>

theorem persist_restore_counterexample:
  "map id_u (files (partialize (store two_added))) = [''1700000000000-0'', ''1700000000000-1'']
   \<and> map file_u (files (partialize (store two_added))) = [None, None]
   \<and> onRehydrateStorage (Some (partialize (store two_added))) \<noteq> Some (partialize (store two_added))
   \<and> onRehydrateStorage (Some (partialize (store two_added))) =
       Some \<lparr>files = [], isUploading = False, currentUploadingId = None\<rparr>"
  by (simp add: two_added_eq partialize_def)

section \<open>Facts about the drive loop\<close>

lemma pending_head:
  assumes "pendingFiles state = f # rest"
  shows "f \<in> set (files state)" and "status f = Pending"
proof -
  have "f \<in> set (pendingFiles state)" using assms by simp
  then show "f \<in> set (files state)" and "status f = Pending"
    by (simp_all add: pendingFiles_def)
qed

lemma schedule_timers:
  "timers (schedule d w) = (if isUploading (store w) then timers w @ [d] else timers w)"
  by (simp add: schedule_def)

lemma schedule_store [simp]: "store (schedule d w) = store w"
  by (simp add: schedule_def)

lemma schedule_requests [simp]: "requests (schedule d w) = requests w"
  by (simp add: schedule_def)

lemma schedule_awaiting [simp]: "awaiting (schedule d w) = awaiting w"
  by (simp add: schedule_def)

lemma updateFileStatus_flags [simp]:
  "isUploading (updateFileStatus i st pr err res state) = isUploading state"
  "currentUploadingId (updateFileStatus i st pr err res state) = currentUploadingId state"
  by (simp_all add: updateFileStatus_def)

lemma updateFileStatus_hit:
  assumes "g \<in> set (files (updateFileStatus i st pr err res state))" and "id_u g = i"
  shows "status g = st \<and> progress g = pr \<and> error g = err \<and> result g = res"
proof -
  let ?upd = "\<lambda>f. if id_u f = i
                   then f\<lparr>status := st, progress := pr, error := err, result := res\<rparr> else f"
  from assms(1) have "g \<in> ?upd ` set (files state)"
    by (simp add: updateFileStatus_def)
  then obtain f where g: "g = ?upd f" ..
  show ?thesis
  proof (cases "id_u f = i")
    case True
    with g show ?thesis by simp
  next
    case False
    with g assms(2) show ?thesis by simp
  qed
qed

lemma updateFileStatus_present:
  assumes "f \<in> set (files state)"
  shows "f\<lparr>status := st, progress := pr, error := err, result := res\<rparr>
           \<in> set (files (updateFileStatus (id_u f) st pr err res state))"
proof -
  let ?upd = "\<lambda>g. if id_u g = id_u f
                   then g\<lparr>status := st, progress := pr, error := err, result := res\<rparr> else g"
  have "?upd f \<in> ?upd ` set (files state)"
    using assms by (rule imageI)
  then show ?thesis
    by (simp add: updateFileStatus_def)
qed

lemma processQueue_invalid:
  assumes "isUploading (store w)" "pendingFiles (store w) = f # rest" "file_u f = Some fl"
    "size_f fl > MAX_FILE_SIZE \<or> type_f fl \<noteq> ''application/pdf''"
  shows "\<exists>msg. processQueue w =
           schedule 100 (w\<lparr>store := updateFileStatus (id_u f) Error 0 (Some msg) None (store w)\<rparr>)"
  using assms by (auto simp add: processQueue_def Let_def)

lemma processQueue_valid:
  assumes "isUploading (store w)" "pendingFiles (store w) = f # rest" "file_u f = Some fl"
    "\<not> size_f fl > MAX_FILE_SIZE" "type_f fl = ''application/pdf''"
  shows "processQueue w =
     (let w2 = w\<lparr>store := updateFileStatus (id_u f) Uploading 0 None None
                            ((store w)\<lparr>currentUploadingId := Some (id_u f)\<rparr>)\<rparr>;
          (promise, w3) = uploadPDF fl (title f) (description f) w2
      in w3\<lparr>awaiting := awaiting w3 @ [(id_u f, promise)]\<rparr>)"
  using assms by (simp add: processQueue_def Let_def)

lemma uploadPDF_no_token:
  "\<not> truthy (token w) \<Longrightarrow>
     uploadPDF fl ttl descr w = (Some (Rejected ''No authentication token found''), w)"
  by (cases "token w") (simp_all add: uploadPDF_def)

lemma del_nth_last: "del_nth (length xs) (xs @ [x]) = xs"
  by (simp add: del_nth_def)

lemma no_token_eq:
  "no_token =
     \<lparr>store = \<lparr>files =
        [\<lparr>id_u = ''1700000000000-0'', file_u = Some pdfA, title = ''a'',
          description = None, status = Uploading, progress = 0, error = None, result = None\<rparr>],
        isUploading = True, currentUploadingId = Some ''1700000000000-0''\<rparr>,
      token = None,
      requests = [],
      awaiting = [(''1700000000000-0'', Some (Rejected ''No authentication token found''))],
      timers = []\<rparr>"
  by (simp add: no_token_def unfold_store)

lemma one_failed_eq:
  "one_failed =
     \<lparr>store = \<lparr>files =
        [\<lparr>id_u = ''1700000000000-0'', file_u = Some pdfA, title = ''a'',
          description = None, status = Error, progress = 0,
          error = Some ''Network error occurred during upload'', result = None\<rparr>],
        isUploading = True, currentUploadingId = Some ''1700000000000-0''\<rparr>,
      token = Some ''secret'',
      requests = [\<lparr>req_title = ''a'', req_description = None, req_file = pdfA,
                   req_token = ''secret''\<rparr>],
      awaiting = [],
      timers = [1000]\<rparr>"
  by (simp add: one_failed_def unfold_store)

lemma core_updateFileStatus:
  "map core (files (updateFileStatus i st pr err res state)) = map core (files state)"
proof -
  have "core (if id_u f = i then f\<lparr>status := st, progress := pr, error := err, result := res\<rparr>
              else f) = core f" for f
    by (simp add: core_def)
  then show ?thesis
    by (simp add: updateFileStatus_def o_def)
qed

lemma store_uploadPDF: "store (snd (uploadPDF fl ttl descr w)) = store w"
  by (simp add: uploadPDF_def split: option.splits)

lemma core_processQueue: "map core (files (store (processQueue w))) = map core (files (store w))"
proof (cases "isUploading (store w)")
  case False
  then show ?thesis by (simp add: processQueue_def)
next
  case active: True
  show ?thesis
  proof (cases "pendingFiles (store w)")
    case Nil
    with active show ?thesis by (simp add: processQueue_def)
  next
    case (Cons f rest)
    show ?thesis
    proof (cases "file_u f")
      case None
      with active Cons show ?thesis by (simp add: processQueue_def)
    next
      case (Some fl)
      show ?thesis
      proof (cases "size_f fl > MAX_FILE_SIZE \<or> type_f fl \<noteq> ''application/pdf''")
        case True
        with processQueue_invalid [OF active Cons Some] show ?thesis
          by (auto simp: core_updateFileStatus)
      next
        case False
        then have "processQueue w =
          (let w2 = w\<lparr>store := updateFileStatus (id_u f) Uploading 0 None None
                            ((store w)\<lparr>currentUploadingId := Some (id_u f)\<rparr>)\<rparr>;
               (promise, w3) = uploadPDF fl (title f) (description f) w2
           in w3\<lparr>awaiting := awaiting w3 @ [(id_u f, promise)]\<rparr>)"
          using processQueue_valid [OF active Cons Some] by simp
        then show ?thesis
          using store_uploadPDF [of fl "title f" "description f"]
          by (simp add: Let_def split_beta core_updateFileStatus)
      qed
    qed
  qed
qed

lemma core_startUpload: "map core (files (store (startUpload w))) = map core (files (store w))"
  by (simp add: startUpload_def core_processQueue)

lemma core_addFiles:
  "map core (files (store (addFiles fs baseTitle descr initialError now w))) =
     map core (files (store w)) @ map core (newFiles fs baseTitle descr initialError now)"
  by (simp add: addFiles_def Let_def core_startUpload)

lemma core_add_calls:
  "map core (files (store (foldl step w (map add_event calls)))) =
     map core (files (store w)) @ concat (map (\<lambda>c. map core (created c)) calls)"
proof (induction calls arbitrary: w)
  case Nil
  show ?case by simp
next
  case (Cons c calls)
  obtain fs baseTitle descr initialError now where c: "c = (fs, baseTitle, descr, initialError, now)"
    by (cases c)
  show ?case
    by (simp add: Cons.IH) (simp add: c add_event_def created_def core_addFiles)
qed

lemma processQueue_requests:
  "requests (processQueue w) = requests w
   \<or> (\<exists>g rest fl tok. pendingFiles (store w) = g # rest \<and> status g = Pending
        \<and> file_u g = Some fl \<and> token w = Some tok
        \<and> requests (processQueue w) = requests w @
            [\<lparr>req_title = title g,
              req_description = (if truthy (description g) then description g else None),
              req_file = fl, req_token = tok\<rparr>])"
proof (cases "isUploading (store w)")
  case False
  then show ?thesis by (simp add: processQueue_def)
next
  case active: True
  show ?thesis
  proof (cases "pendingFiles (store w)")
    case Nil
    with active show ?thesis by (simp add: processQueue_def)
  next
    case (Cons f rest)
    show ?thesis
    proof (cases "file_u f")
      case None
      with active Cons show ?thesis by (simp add: processQueue_def)
    next
      case (Some fl)
      show ?thesis
      proof (cases "size_f fl > MAX_FILE_SIZE \<or> type_f fl \<noteq> ''application/pdf''")
        case True
        with processQueue_invalid [OF active Cons Some] show ?thesis
          by auto
      next
        case False
        then have pq: "processQueue w =
          (let w2 = w\<lparr>store := updateFileStatus (id_u f) Uploading 0 None None
                            ((store w)\<lparr>currentUploadingId := Some (id_u f)\<rparr>)\<rparr>;
               (promise, w3) = uploadPDF fl (title f) (description f) w2
           in w3\<lparr>awaiting := awaiting w3 @ [(id_u f, promise)]\<rparr>)"
          using processQueue_valid [OF active Cons Some] by simp
        show ?thesis
        proof (cases "token w")
          case None
          then show ?thesis by (simp add: pq uploadPDF_def)
        next
          case tok: (Some tok)
          show ?thesis
          proof (cases "tok = []")
            case True
            with tok show ?thesis by (simp add: pq uploadPDF_def)
          next
            case False
            with tok have "requests (processQueue w) = requests w @
                [\<lparr>req_title = title f,
                  req_description = (if truthy (description f) then description f else None),
                  req_file = fl, req_token = tok\<rparr>]"
              by (simp add: pq uploadPDF_def)
            with Cons Some tok pending_head(2) [OF Cons] show ?thesis
              by blast
          qed
        qed
      qed
    qed
  qed
qed










section \<open>Scheduling the next tick\<close>

text \<open>
  Claim C5, as the code has it. The drive loop schedules its next tick only while the store
  is still active: 500 ms after a success, 1000 ms after a failed transfer (or a missing
  token), and 100 ms after a local validation failure, which marks the item \<open>error\<close>. So
  every scheduled delay is positive and the delay after a failed transfer is longer than
  the one after a success; the delay after a local validation failure is shorter.
\<close>

theorem reentry_delays:
  "timers (processQueue_resume i (Resolved res) w) =
     (if isUploading (store w) then timers w @ [500] else timers w)
   \<and> timers (processQueue_resume i (Rejected msg) w) =
     (if isUploading (store w) then timers w @ [1000] else timers w)
   \<and> (isUploading (store w) \<and> pendingFiles (store w) = f # rest \<and> file_u f = Some fl
        \<and> (size_f fl > MAX_FILE_SIZE \<or> type_f fl \<noteq> ''application/pdf'')
      \<longrightarrow> timers (processQueue w) = timers w @ [100]
          \<and> (\<forall>g\<in>set (files (store (processQueue w))). id_u g = id_u f \<longrightarrow> status g = Error))"
proof (intro conjI impI)
  assume a: "isUploading (store w) \<and> pendingFiles (store w) = f # rest \<and> file_u f = Some fl
        \<and> (size_f fl > MAX_FILE_SIZE \<or> type_f fl \<noteq> ''application/pdf'')"
  then obtain m where pq: "processQueue w =
      schedule 100 (w\<lparr>store := updateFileStatus (id_u f) Error 0 (Some m) None (store w)\<rparr>)"
    using processQueue_invalid [of w f rest fl] by blast
  show "timers (processQueue w) = timers w @ [100]"
    using a by (simp add: pq schedule_timers)
  show "\<forall>g\<in>set (files (store (processQueue w))). id_u g = id_u f \<longrightarrow> status g = Error"
    using updateFileStatus_hit [of _ "id_u f" Error 0 "Some m" None "store w"]
    by (simp add: pq)
qed (simp_all add: schedule_timers)

text \<open>The three delays, on a queued 15 MB file and on the transfer of a 1 MB file.\<close>

theorem reentry_delays_witness:
  "timers (processQueue big_queued) = [100]
   \<and> timers (processQueue_resume ''1700000000000-0'' (Resolved ''{}'') two_added) = [500]
   \<and> timers (processQueue_resume ''1700000000000-0''
        (Rejected ''Network error occurred during upload'') two_added) = [1000]"
proof -
  let ?f = "(item_of ''9'' Pending)\<lparr>file_u := Some big\<rparr>"
  note two = reentry_delays [of "''1700000000000-0''" "''{}''" two_added
      "''Network error occurred during upload''" ?f "[]" big]
  note one = reentry_delays [of "''9''" "''{}''" big_queued "''x''" ?f "[]" big]
  have active: "isUploading (store two_added)"
    by (simp add: two_added_eq)
  have hyp: "isUploading (store big_queued) \<and> pendingFiles (store big_queued) = [?f]
      \<and> file_u ?f = Some big
      \<and> (size_f big > MAX_FILE_SIZE \<or> type_f big \<noteq> ''application/pdf'')"
    by (simp add: big_queued_def item_of_def pendingFiles_def example_files MAX_FILE_SIZE_def)
  have "timers (processQueue big_queued) = timers big_queued @ [100]"
    using one hyp by blast
  moreover have "timers big_queued = []"
    by (simp add: big_queued_def)
  moreover have "timers (processQueue_resume ''1700000000000-0'' (Resolved ''{}'') two_added)
      = timers two_added @ [500]"
    using two active by simp
  moreover have "timers (processQueue_resume ''1700000000000-0''
        (Rejected ''Network error occurred during upload'') two_added) = timers two_added @ [1000]"
    using two active by simp
  moreover have "timers two_added = []"
    by (simp add: two_added_eq)
  ultimately show ?thesis
    by simp
qed

text \<open>
  The claim as written fails twice: the retried 15 MB file ends in \<open>error\<close> and the next
  tick comes after 100 ms, which is not longer than the 500 ms after a success; and a
  transfer that settles after a pause schedules nothing.
\<close>

theorem reentry_delays_counterexample:
  "map status (files (store big_retried)) = [Error]
   \<and> map error (files (store big_retried)) = [Some (size_message big)]
   \<and> timers big_retried = [100]
   \<and> map status (files (store one_done)) = [Success]
   \<and> timers one_done = [500]
   \<and> \<not> timers one_done ! 0 < timers big_retried ! 0
   \<and> map status (files (store paused_done)) = [Success]
   \<and> timers paused_done = []"
  by (simp add: one_done_eq big_retried_def paused_done_def size_message_big unfold_store)

section \<open>Missing credentials\<close>

text \<open>
  Claim C6, as the code has it. When the selected item passes the local validation and
  there is no token, \<open>processQueue\<close> first marks the item \<open>uploading\<close> and makes it the
  active item; \<open>uploadPDF\<close> then rejects without sending a request, and the continuation
  marks the item \<open>error\<close> with the message \<open>No authentication token found\<close> and
  schedules the next tick after 1000 ms.
\<close>

theorem credential_failure:
  assumes "isUploading (store w)" and "pendingFiles (store w) = f # rest"
    and "file_u f = Some fl" and "\<not> size_f fl > MAX_FILE_SIZE"
    and "type_f fl = ''application/pdf''" and "\<not> truthy (token w)"
  shows "requests (processQueue w) = requests w
    \<and> timers (processQueue w) = timers w
    \<and> awaiting (processQueue w) =
        awaiting w @ [(id_u f, Some (Rejected ''No authentication token found''))]
    \<and> currentUploadingId (store (processQueue w)) = Some (id_u f)
    \<and> f\<lparr>status := Uploading, progress := 0, error := None, result := None\<rparr>
        \<in> set (files (store (processQueue w)))
    \<and> requests (step (processQueue w) (Continue (length (awaiting w)))) = requests w
    \<and> awaiting (step (processQueue w) (Continue (length (awaiting w)))) = awaiting w
    \<and> timers (step (processQueue w) (Continue (length (awaiting w)))) = timers w @ [1000]
    \<and> f\<lparr>status := Error, progress := 0, error := Some ''No authentication token found'',
          result := None\<rparr>
        \<in> set (files (store (step (processQueue w) (Continue (length (awaiting w))))))"
proof -
  let ?msg = "''No authentication token found''"
  let ?s1 = "updateFileStatus (id_u f) Uploading 0 None None
               ((store w)\<lparr>currentUploadingId := Some (id_u f)\<rparr>)"
  let ?f1 = "f\<lparr>status := Uploading, progress := 0, error := None, result := None\<rparr>"
  have pq: "processQueue w =
      w\<lparr>store := ?s1, awaiting := awaiting w @ [(id_u f, Some (Rejected ?msg))]\<rparr>"
    using assms by (simp add: processQueue_valid uploadPDF_no_token)
  have "f \<in> set (files ((store w)\<lparr>currentUploadingId := Some (id_u f)\<rparr>))"
    using pending_head(1) [OF assms(2)] by simp
  then have f1: "?f1 \<in> set (files ?s1)"
    by (rule updateFileStatus_present)
  have cont: "step (processQueue w) (Continue (length (awaiting w))) =
      schedule 1000 (w\<lparr>store := updateFileStatus (id_u f) Error 0 (Some ?msg) None ?s1\<rparr>)"
    by (simp add: pq del_nth_last)
  have "?f1\<lparr>status := Error, progress := 0, error := Some ?msg, result := None\<rparr>
      \<in> set (files (updateFileStatus (id_u ?f1) Error 0 (Some ?msg) None ?s1))"
    using f1 by (rule updateFileStatus_present)
  then have f2: "f\<lparr>status := Error, progress := 0, error := Some ?msg, result := None\<rparr>
      \<in> set (files (updateFileStatus (id_u f) Error 0 (Some ?msg) None ?s1))"
    by simp
  have f1': "?f1 \<in> set (files (store (processQueue w)))"
    using f1 by (simp add: pq)
  have f2': "f\<lparr>status := Error, progress := 0, error := Some ?msg, result := None\<rparr>
      \<in> set (files (store (step (processQueue w) (Continue (length (awaiting w))))))"
    unfolding cont using f2 by simp
  have before: "requests (processQueue w) = requests w \<and> timers (processQueue w) = timers w
      \<and> awaiting (processQueue w) = awaiting w @ [(id_u f, Some (Rejected ?msg))]
      \<and> currentUploadingId (store (processQueue w)) = Some (id_u f)"
    by (simp add: pq)
  have after: "requests (step (processQueue w) (Continue (length (awaiting w)))) = requests w
      \<and> awaiting (step (processQueue w) (Continue (length (awaiting w)))) = awaiting w
      \<and> timers (step (processQueue w) (Continue (length (awaiting w)))) = timers w @ [1000]"
    unfolding cont using assms(1) by (simp add: schedule_timers)
  from before after f1' f2' show ?thesis
    by blast
qed

text \<open>A pending 1 MB PDF in an active store, without a token.\<close>

theorem credential_failure_witness:
  "requests (processQueue queued_no_token) = []
   \<and> awaiting (processQueue queued_no_token) =
       [(''7'', Some (Rejected ''No authentication token found''))]
   \<and> item_of ''7'' Uploading \<in> set (files (store (processQueue queued_no_token)))
   \<and> requests (step (processQueue queued_no_token) (Continue 0)) = []
   \<and> timers (step (processQueue queued_no_token) (Continue 0)) = [1000]
   \<and> (item_of ''7'' Error)\<lparr>error := Some ''No authentication token found''\<rparr>
       \<in> set (files (store (step (processQueue queued_no_token) (Continue 0))))"
proof -
  have "isUploading (store queued_no_token)"
    and "pendingFiles (store queued_no_token) = [item_of ''7'' Pending]"
    and "file_u (item_of ''7'' Pending) = Some pdfA"
    and "\<not> size_f pdfA > MAX_FILE_SIZE"
    and "type_f pdfA = ''application/pdf''"
    and "\<not> truthy (token queued_no_token)"
    by (simp_all add: queued_no_token_def pendingFiles_def item_of_def example_files
        MAX_FILE_SIZE_def)
  note at_input = credential_failure [OF this]
  have base: "requests queued_no_token = []" "timers queued_no_token = []"
    "awaiting queued_no_token = []"
    by (simp_all add: queued_no_token_def)
  have items: "id_u (item_of ''7'' Pending) = ''7''"
    "(item_of ''7'' Pending)\<lparr>status := Uploading, progress := 0, error := None, result := None\<rparr>
       = item_of ''7'' Uploading"
    "(item_of ''7'' Pending)\<lparr>status := Error, progress := 0,
        error := Some ''No authentication token found'', result := None\<rparr>
       = (item_of ''7'' Error)\<lparr>error := Some ''No authentication token found''\<rparr>"
    by (simp_all add: item_of_def)
  show ?thesis
    using at_input unfolding base items list.size append_Nil by blast
qed

text \<open>
  The claim as written fails: a file added without a token is \<open>uploading\<close> and is the
  active item when \<open>addFiles\<close> returns; it becomes \<open>error\<close> only when the rejected
  promise is handled.
\<close>

theorem credential_failure_counterexample:
  "map status (files (store no_token)) = [Uploading]
   \<and> currentUploadingId (store no_token) = Some ''1700000000000-0''
   \<and> requests no_token = []
   \<and> map status (files (store (step no_token (Continue 0)))) = [Error]
   \<and> map error (files (store (step no_token (Continue 0)))) =
       [Some ''No authentication token found'']"
  by (simp add: no_token_eq unfold_store)

section \<open>Retrying\<close>

text \<open>
  Claim C1, as the code has it. \<open>retryFile(id)\<close> resets every item with that id to
  \<open>pending\<close>, with progress 0 and no error message, whatever its status was, and leaves
  the other items as they are; an idle store is then started, an active one is not touched
  otherwise.
\<close>

theorem retryFile_resets:
  "(isUploading (store w) \<longrightarrow>
      retryFile i w =
        w\<lparr>store := (store w)\<lparr>files :=
             map (\<lambda>f. if id_u f = i then f\<lparr>status := Pending, progress := 0, error := None\<rparr>
                      else f) (files (store w))\<rparr>\<rparr>)
   \<and> (\<not> isUploading (store w) \<longrightarrow>
      retryFile i w =
        startUpload (w\<lparr>store := (store w)\<lparr>files :=
             map (\<lambda>f. if id_u f = i then f\<lparr>status := Pending, progress := 0, error := None\<rparr>
                      else f) (files (store w))\<rparr>\<rparr>))
   \<and> (isUploading (store w) \<and> f \<in> set (files (store w)) \<and> id_u f = i \<longrightarrow>
        f\<lparr>status := Pending, progress := 0, error := None\<rparr> \<in> set (files (store (retryFile i w))))
   \<and> (isUploading (store w) \<and> f \<in> set (files (store w)) \<and> id_u f \<noteq> i \<longrightarrow>
        f \<in> set (files (store (retryFile i w))))"
proof -
  let ?reset = "\<lambda>f. if id_u f = i then f\<lparr>status := Pending, progress := 0, error := None\<rparr> else f"
  have "f \<in> set (files (store w)) \<Longrightarrow> ?reset f \<in> ?reset ` set (files (store w))"
    by (rule imageI)
  then show ?thesis
    by (simp add: retryFile_def Let_def)
qed

text \<open>The failed item of an active store becomes pending and loses its message.\<close>

theorem retryFile_resets_witness:
  "map status (files (store one_failed)) = [Error]
   \<and> map status (files (store (retryFile ''1700000000000-0'' one_failed))) = [Pending]
   \<and> map error (files (store (retryFile ''1700000000000-0'' one_failed))) = [None]
   \<and> timers (retryFile ''1700000000000-0'' one_failed) = timers one_failed"
proof -
  have "isUploading (store one_failed)"
    by (simp add: one_failed_eq)
  with retryFile_resets [of one_failed "''1700000000000-0''"]
  have "retryFile ''1700000000000-0'' one_failed =
      one_failed\<lparr>store := (store one_failed)\<lparr>files :=
         map (\<lambda>f. if id_u f = ''1700000000000-0''
                  then f\<lparr>status := Pending, progress := 0, error := None\<rparr>
                  else f) (files (store one_failed))\<rparr>\<rparr>"
    by blast
  then show ?thesis
    by (simp add: one_failed_eq)
qed

text \<open>
  The claim as written fails: retrying an item whose transfer has succeeded makes it
  \<open>pending\<close> again.
\<close>

theorem retryFile_counterexample:
  "map status (files (store one_done)) = [Success]
   \<and> map status (files (store (step one_done (RetryFile ''1700000000000-0'')))) = [Pending]
   \<and> map progress (files (store (step one_done (RetryFile ''1700000000000-0'')))) = [0]
   \<and> step one_done (RetryFile ''1700000000000-0'') \<noteq> one_done"
  by (simp add: one_done_eq unfold_store)

section \<open>Adding items\<close>

text \<open>
  Claim C7. After any sequence of \<open>addFiles\<close> calls the queue holds,
  position by position, the ids, payloads, titles and descriptions of the items that were
  there before followed by those of the items created by each call, in the order of the
  calls; on an initially empty queue this is the concatenation of the created items. A
  call made while the store is active, or with a precomputed error, appends the created
  items and changes nothing else. (A call that adds valid files to an idle store starts
  the drive loop, which updates status, progress, error and result of the item it
  selects.)
\<close>

theorem addFiles_fifo:
  "map core (files (store (run w (map add_event calls)))) =
     map core (files (store w)) @ concat (map (\<lambda>c. map core (created c)) calls)
   \<and> (files (store w) = [] \<longrightarrow>
        map core (files (store (run w (map add_event calls)))) =
          concat (map (\<lambda>c. map core (created c)) calls))
   \<and> (isUploading (store w) \<or> truthy initialError \<longrightarrow>
        addFiles fs baseTitle descr initialError now w =
          w\<lparr>store := (store w)\<lparr>files := files (store w)
                         @ newFiles fs baseTitle descr initialError now\<rparr>\<rparr>)"
  by (auto simp: run_def core_add_calls addFiles_def Let_def)

text \<open>Two calls on the initial store: one file, then two files.\<close>

theorem addFiles_fifo_witness:
  "map core (files (store (run (initial (Some ''secret''))
      (map add_event [([pdfA], ''a'', None, None, t0), ([pdfB, big], ''Doc'', None, None, t1)]))))
   = [(''1700000000000-0'', Some pdfA, ''a'', None),
      (''1700000000001-0'', Some pdfB, ''Doc - Part 1'', None),
      (''1700000000001-1'', Some big, ''Doc - Part 2'', None)]"
proof -
  have "files (store (initial (Some ''secret''))) = []"
    by (simp add: initial_def)
  with addFiles_fifo [of "initial (Some ''secret'')"
      "[([pdfA], ''a'', None, None, t0), ([pdfB, big], ''Doc'', None, None, t1)]"]
  have "map core (files (store (run (initial (Some ''secret''))
      (map add_event [([pdfA], ''a'', None, None, t0), ([pdfB, big], ''Doc'', None, None, t1)]))))
    = concat (map (\<lambda>c. map core (created c))
        [([pdfA], ''a'', None, None, t0), ([pdfB, big], ''Doc'', None, None, t1)])"
    by blast
  then show ?thesis
    by (simp add: created_def newFiles_def core_def enumerate_eq_zip show_nat_t0 show_nat_small show_nat_t1)
qed

text \<open>
  Claim C9. A call of \<open>addFiles\<close> with a precomputed error (a non-empty message; the
  caller passes no message, or the empty one, for a valid file) only appends the created
  items, so it starts nothing; each created item has status \<open>error\<close> and carries the
  message. An item in \<open>error\<close> status is not among the pending items the drive loop
  selects from, and a tick sends at most one request, built from the first pending item.
\<close>

theorem precomputed_error_not_dispatched:
  assumes "truthy initialError"
  shows "addFiles fs baseTitle descr initialError now w =
      w\<lparr>store := (store w)\<lparr>files := files (store w)
                     @ newFiles fs baseTitle descr initialError now\<rparr>\<rparr>
    \<and> length (newFiles fs baseTitle descr initialError now) = length fs
    \<and> (\<forall>f\<in>set (newFiles fs baseTitle descr initialError now).
          status f = Error \<and> error f = initialError)
    \<and> (\<forall>w' f. f \<in> set (files (store w')) \<and> status f = Error
          \<longrightarrow> f \<notin> set (pendingFiles (store w')))
    \<and> (\<forall>w'. requests (processQueue w') = requests w'
          \<or> (\<exists>g rest fl tok. pendingFiles (store w') = g # rest \<and> status g = Pending
               \<and> file_u g = Some fl \<and> token w' = Some tok
               \<and> requests (processQueue w') = requests w' @
                   [\<lparr>req_title = title g,
                     req_description = (if truthy (description g) then description g else None),
                     req_file = fl, req_token = tok\<rparr>]))"
proof (intro conjI)
  show "addFiles fs baseTitle descr initialError now w =
      w\<lparr>store := (store w)\<lparr>files := files (store w)
                     @ newFiles fs baseTitle descr initialError now\<rparr>\<rparr>"
    using assms by (simp add: addFiles_def Let_def)
  show "length (newFiles fs baseTitle descr initialError now) = length fs"
    by (simp add: newFiles_def)
  show "\<forall>f\<in>set (newFiles fs baseTitle descr initialError now).
          status f = Error \<and> error f = initialError"
    using assms by (auto simp: newFiles_def)
  show "\<forall>w' f. f \<in> set (files (store w')) \<and> status f = Error
          \<longrightarrow> f \<notin> set (pendingFiles (store w'))"
    by (simp add: pendingFiles_def)
  show "\<forall>w'. requests (processQueue w') = requests w'
          \<or> (\<exists>g rest fl tok. pendingFiles (store w') = g # rest \<and> status g = Pending
               \<and> file_u g = Some fl \<and> token w' = Some tok
               \<and> requests (processQueue w') = requests w' @
                   [\<lparr>req_title = title g,
                     req_description = (if truthy (description g) then description g else None),
                     req_file = fl, req_token = tok\<rparr>])"
    using processQueue_requests by blast
qed

text \<open>The 15 MB file is added to the initial store with the message its caller computes.\<close>

theorem precomputed_error_not_dispatched_witness:
  "map status (files (store (addFiles [big] ''big'' None (Some (size_message big)) t0
      (initial (Some ''secret''))))) = [Error]
   \<and> map error (files (store (addFiles [big] ''big'' None (Some (size_message big)) t0
      (initial (Some ''secret''))))) =
       [Some ''File size (15.00 MB) exceeds the maximum allowed size of 10 MB'']
   \<and> isUploading (store (addFiles [big] ''big'' None (Some (size_message big)) t0
      (initial (Some ''secret'')))) = False
   \<and> requests (addFiles [big] ''big'' None (Some (size_message big)) t0
      (initial (Some ''secret''))) = []
   \<and> awaiting (addFiles [big] ''big'' None (Some (size_message big)) t0
      (initial (Some ''secret''))) = []
   \<and> timers (addFiles [big] ''big'' None (Some (size_message big)) t0
      (initial (Some ''secret''))) = []"
proof -
  have "truthy (Some (size_message big))"
    by (simp add: size_message_big)
  from precomputed_error_not_dispatched [OF this, of "[big]" "''big''" None t0
      "initial (Some ''secret'')"]
  have "addFiles [big] ''big'' None (Some (size_message big)) t0 (initial (Some ''secret'')) =
      (initial (Some ''secret''))\<lparr>store := (store (initial (Some ''secret'')))\<lparr>files :=
         files (store (initial (Some ''secret'')))
           @ newFiles [big] ''big'' None (Some (size_message big)) t0\<rparr>\<rparr>"
    by blast
  then show ?thesis
    by (simp add: size_message_big initial_def newFiles_def enumerate_eq_zip)
qed

section \<open>Removing the active item\<close>




section \<open>Two defects\<close>

text \<open>
  Claim C2 does not hold of the code. Two files are added, the store is paused while the
  first transfer is open and started again: \<open>startUpload\<close> sees \<open>isUploading = false\<close>
  and dispatches the second file, so two items are \<open>uploading\<close> and two transfers are
  open.
\<close>

theorem pause_start_two_uploading:
  "map status (files (store restarted)) = [Uploading, Uploading]
   \<and> map id_u (files (store restarted)) = [''1700000000000-0'', ''1700000000000-1'']
   \<and> map req_file (requests restarted) = [pdfA, pdfB]
   \<and> awaiting restarted = [(''1700000000000-0'', None), (''1700000000000-1'', None)]"
  by (simp add: restarted_def unfold_store)

text \<open>
  Claim C4 does not hold of the code. The id is the clock reading and the index within
  the call, so two calls in the same millisecond give the same id to their first items,
  and an id that was removed is assigned again.
\<close>

theorem same_millisecond_ids_collide:
  "map id_u (files (store same_millisecond)) = [''1700000000000-0'', ''1700000000000-0'']
   \<and> map file_u (files (store same_millisecond)) = [Some pdfA, Some pdfB]
   \<and> \<not> distinct (map id_u (files (store same_millisecond)))
   \<and> files (store (run (initial (Some ''secret''))
        [AddFiles [pdfA] ''a'' None None t0, RemoveFile ''1700000000000-0''])) = []
   \<and> map id_u (files (store readded)) = [''1700000000000-0'']
   \<and> map file_u (files (store readded)) = [Some pdfB]"
  by (simp add: same_millisecond_def readded_def unfold_store)

end
